theory Spec2Isabelle
  imports Main "HOL-Library.Sublist" "HOL-Library.Word"
begin

section \<open>Python values and exceptions\<close>

text \<open>
  Strings are byte lists. A header value is the Latin-1 decoding of the raw header, one
  character per byte; a string decoded from JSON is represented by its UTF-8 encoding,
  which is what concatenation, percent-encoding and the response body work on.
\<close>

text \<open>
  What \<^verbatim>\<open>response.json()\<close> returns: \<^verbatim>\<open>None\<close>, \<^verbatim>\<open>bool\<close>, \<^verbatim>\<open>int\<close>, \<^verbatim>\<open>float\<close> (by
  its IEEE-754 bits), \<^verbatim>\<open>str\<close>, \<^verbatim>\<open>list\<close> and \<^verbatim>\<open>dict\<close>. A dict is an association list
  read with \<^const>\<open>map_of\<close>.
\<close>

datatype json =
    JNull
  | JBool bool
  | JInt int
  | JFloat "64 word"
  | JStr string
  | JArr "json list"
  | JObj "(string \<times> json) list"

text \<open>A subscript: \<^verbatim>\<open>x['name']\<close> or \<^verbatim>\<open>x[i]\<close> with a literal non-negative \<open>i\<close>.\<close>

datatype key = Name string | Index nat

text \<open>
  The exceptions that can reach the handler of the clip route: the ones the source raises
  itself (\<^verbatim>\<open>raise Exception(msg)\<close>), the ones subscripting raises, and the ones the
  \<^verbatim>\<open>requests\<close> library raises (no response at all, or a body that is no JSON).
\<close>

datatype py_exception =
    Exception string
  | KeyError key
  | IndexError string
  | TypeError string
  | JSONDecodeError string
  | RequestException string

fun dec :: "nat \<Rightarrow> string" where
  "dec n = (if n < 10 then [char_of (48 + n)] else dec (n div 10) @ [char_of (48 + n mod 10)])"

declare dec.simps [simp del]

text \<open>\<^verbatim>\<open>repr\<close> of a subscript; the names the source subscripts with need no escaping.\<close>

fun repr_key :: "key \<Rightarrow> string" where
  "repr_key (Name k) = [CHR 0x27] @ k @ [CHR 0x27]"
| "repr_key (Index i) = dec i"

text \<open>\<^verbatim>\<open>str(e)\<close>: the message, and for a \<^verbatim>\<open>KeyError\<close> the \<^verbatim>\<open>repr\<close> of the key.\<close>

fun str_exc :: "py_exception \<Rightarrow> string" where
  "str_exc (Exception m) = m"
| "str_exc (KeyError k) = repr_key k"
| "str_exc (IndexError m) = m"
| "str_exc (TypeError m) = m"
| "str_exc (JSONDecodeError m) = m"
| "str_exc (RequestException m) = m"

text \<open>The code points of a UTF-8 string: a leading byte with its continuation bytes.\<close>

definition is_cont :: "char \<Rightarrow> bool" where
  "is_cont c = (128 \<le> (of_char c :: nat) \<and> (of_char c :: nat) < 192)"

function codepoints :: "string \<Rightarrow> string list" where
  "codepoints [] = []"
| "codepoints (c # cs) = (c # takeWhile is_cont cs) # codepoints (dropWhile is_cont cs)"
  by pat_completeness auto
termination
  by (relation "measure length") (auto simp: less_Suc_eq_le length_dropWhile_le)

text \<open>
  \<^verbatim>\<open>x[k]\<close> on a value decoded from JSON, with the messages of CPython 3.11. The keys of
  a dict decoded from JSON are strings, so an integer subscript is never found.
\<close>

fun getitem :: "json \<Rightarrow> key \<Rightarrow> py_exception + json" where
  "getitem (JObj kvs) (Name k) =
     (case map_of kvs k of None \<Rightarrow> Inl (KeyError (Name k)) | Some v \<Rightarrow> Inr v)"
| "getitem (JObj kvs) (Index i) = Inl (KeyError (Index i))"
| "getitem (JArr xs) (Index i) =
     (if i < length xs then Inr (xs ! i) else Inl (IndexError ''list index out of range''))"
| "getitem (JArr xs) (Name k) =
     Inl (TypeError ''list indices must be integers or slices, not str'')"
| "getitem (JStr s) (Index i) =
     (if i < length (codepoints s) then Inr (JStr (codepoints s ! i))
      else Inl (IndexError ''string index out of range''))"
| "getitem (JStr s) (Name k) =
     Inl (TypeError (''string indices must be integers, not '' @ repr_key (Name ''str'')))"
| "getitem JNull k =
     Inl (TypeError (repr_key (Name ''NoneType'') @ '' object is not subscriptable''))"
| "getitem (JBool b) k =
     Inl (TypeError (repr_key (Name ''bool'') @ '' object is not subscriptable''))"
| "getitem (JInt n) k =
     Inl (TypeError (repr_key (Name ''int'') @ '' object is not subscriptable''))"
| "getitem (JFloat x) k =
     Inl (TypeError (repr_key (Name ''float'') @ '' object is not subscriptable''))"

text \<open>Sequencing of statements that may raise: the first exception ends the block.\<close>

definition bind :: "py_exception + 'a \<Rightarrow> ('a \<Rightarrow> py_exception + 'b) \<Rightarrow> py_exception + 'b" where
  "bind m f = (case m of Inl e \<Rightarrow> Inl e | Inr x \<Rightarrow> f x)"

section \<open>Classification of the client\<close>

text \<open>
  \<^verbatim>\<open>str.lower()\<close> on a Latin-1 string: the ASCII capitals and the capitals
  \<open>0xC0 .. 0xDE\<close> without the multiplication sign \<open>0xD7\<close> move up by 32.
\<close>

definition lower_char :: "char \<Rightarrow> char" where
  "lower_char c =
     (let n = (of_char c :: nat)
      in if (65 \<le> n \<and> n \<le> 90) \<or> (192 \<le> n \<and> n \<le> 222 \<and> n \<noteq> 215)
         then char_of (n + 32) else c)"

definition lower :: "string \<Rightarrow> string" where
  "lower s = map lower_char s"

definition bot_agents :: "string list" where
  "bot_agents = [''bot'', ''crawler'', ''spider'', ''slurp'', ''facebookexternalhit'', ''whatsapp'']"

text \<open>\<^verbatim>\<open>any(agent in user_agent for agent in bot_agents)\<close>, on the lowercased header.\<close>

definition is_bot :: "string \<Rightarrow> bool" where
  "is_bot user_agent = list_ex (\<lambda>agent. sublist agent user_agent) bot_agents"



section \<open>Outbound HTTP and configuration\<close>

text \<open>
  A call \<^verbatim>\<open>requests.post(url, params=..., headers=..., json=...)\<close>. A parameter whose
  value is \<^verbatim>\<open>None\<close> (an unset environment variable) is \<open>None\<close> here.
\<close>

record http_call =
  post_url :: string
  post_params :: "(string \<times> string option) list"
  post_headers :: "(string \<times> string) list"
  post_json :: "json option"

text \<open>
  The response of \<^verbatim>\<open>requests\<close>: \<open>json_result\<close> is what \<^verbatim>\<open>response.json()\<close> does,
  the decoded value or the message of the decoding error; \<open>response_text\<close> is
  \<^verbatim>\<open>response.text\<close>.
\<close>

record response =
  status_code :: int
  response_text :: string
  json_result :: "string + json"

text \<open>
  What the program reads from outside its source: the two credentials of the process
  environment, the network behind \<^verbatim>\<open>requests.post\<close> (a response, or the message of the
  exception raised when there is none), and Python's \<^verbatim>\<open>str\<close> on a value that is not
  a string, used where an f-string formats a decoded value.
\<close>

record environment =
  TWITCH_CLIENT_ID :: "string option"
  TWITCH_CLIENT_SECRET :: "string option"
  requests_post :: "http_call \<Rightarrow> string + response"
  py_str :: "json \<Rightarrow> string"

text \<open>\<^verbatim>\<open>f"{v}"\<close>: a string is inserted as it is.\<close>

definition fstr :: "environment \<Rightarrow> json \<Rightarrow> string" where
  "fstr env v = (case v of JStr s \<Rightarrow> s | _ \<Rightarrow> py_str env v)"

text \<open>Chained subscripts \<^verbatim>\<open>x[k1][k2]...\<close>, evaluated from the left.\<close>

fun getpath :: "json \<Rightarrow> key list \<Rightarrow> py_exception + json" where
  "getpath v [] = Inr v"
| "getpath v (k # ks) = bind (getitem v k) (\<lambda>x. getpath x ks)"

subsection \<open>Percent-encoding\<close>

text \<open>
  \<^verbatim>\<open>requests.utils.quote\<close> is \<^verbatim>\<open>urllib.parse.quote\<close> with \<^verbatim>\<open>safe='/'\<close>: the bytes of
  the UTF-8 encoding that are letters, digits or one of \<^verbatim>\<open>_.-~/\<close> stay, every other
  byte becomes \<^verbatim>\<open>%XX\<close> in upper-case hexadecimal. An argument that is no string raises
  \<^verbatim>\<open>TypeError\<close>.
\<close>

definition always_safe :: string where
  "always_safe = ''ABCDEFGHIJKLMNOPQRSTUVWXYZabcdefghijklmnopqrstuvwxyz0123456789_.-~''"

definition hexdigit :: "nat \<Rightarrow> char" where
  "hexdigit n = ''0123456789ABCDEF'' ! (n mod 16)"

definition quote_byte :: "char \<Rightarrow> string" where
  "quote_byte c =
     (if c \<in> set (always_safe @ ''/'') then [c]
      else [CHR ''%'', hexdigit (of_char c div 16), hexdigit (of_char c mod 16)])"

fun quote :: "json \<Rightarrow> py_exception + string" where
  "quote (JStr s) = Inr (concat (map quote_byte s))"
| "quote v = Inl (TypeError ''quote_from_bytes() expected bytes'')"

section \<open>The token provider\<close>

definition token_call :: "environment \<Rightarrow> http_call" where
  "token_call env =
     \<lparr>post_url = ''https://id.twitch.tv/oauth2/token'',
      post_params = [(''client_id'', TWITCH_CLIENT_ID env),
                     (''client_secret'', TWITCH_CLIENT_SECRET env),
                     (''grant_type'', Some ''client_credentials'')],
      post_headers = [],
      post_json = None\<rparr>"

text \<open>\<^verbatim>\<open>fetch_twitch_access_token\<close>: the decoded body of a response with status 200.\<close>

definition fetch_twitch_access_token :: "environment \<Rightarrow> py_exception + json" where
  "fetch_twitch_access_token env =
     (case requests_post env (token_call env) of
        Inl m \<Rightarrow> Inl (RequestException m)
      | Inr response \<Rightarrow>
          if status_code response \<noteq> 200
          then Inl (Exception (''Failed to get access token: '' @ response_text response))
          else (case json_result response of
                  Inl m \<Rightarrow> Inl (JSONDecodeError m)
                | Inr data \<Rightarrow> Inr data))"

text \<open>\<^verbatim>\<open>get_twitch_access_token\<close>: the wrapper that subscripts the body.\<close>

definition get_twitch_access_token :: "environment \<Rightarrow> py_exception + json" where
  "get_twitch_access_token env =
     bind (fetch_twitch_access_token env) (\<lambda>token_data. getitem token_data (Name ''access_token''))"

section \<open>The clip resolver\<close>

record clip_info =
  broadcaster_name :: json
  title :: json
  url :: string
  view_count :: json
  creator_name :: json
  thumbnail_url :: string
  video_url :: string

definition persisted_query :: "string \<Rightarrow> json" where
  "persisted_query hash =
     JObj [(''persistedQuery'', JObj [(''version'', JInt 1), (''sha256Hash'', JStr hash)])]"

definition payload :: "string \<Rightarrow> json" where
  "payload clip_id =
     JArr [
       JObj [(''operationName'', JStr ''VideoPlayerStreamInfoOverlayClip''),
             (''variables'', JObj [(''slug'', JStr clip_id)]),
             (''extensions'', persisted_query
                ''fcefd8b2081e39d16cbdc94bc82142df01b143bb296f0043262c44c37dbd1f63'')],
       JObj [(''operationName'', JStr ''VideoAccessToken_Clip''),
             (''variables'', JObj [(''platform'', JStr ''web''), (''slug'', JStr clip_id)]),
             (''extensions'', persisted_query
                ''6fd3af2b22989506269b9ac02dd87eb4a6688392d67d94e41a6886f1e9f5c00f'')]]"

definition gql_call :: "environment \<Rightarrow> json \<Rightarrow> string \<Rightarrow> http_call" where
  "gql_call env access_token clip_id =
     \<lparr>post_url = ''https://gql.twitch.tv/gql'',
      post_params = [],
      post_headers = [(''Client-ID'', ''kimne78kx3ncx6brgo4mv6wki5h1ko''),
                      (''Authorization'', ''Bearer '' @ fstr env access_token),
                      (''Content-Type'', ''application/json'')],
      post_json = Some (payload clip_id)\<rparr>"

text \<open>The body of the \<^verbatim>\<open>try\<close> block: the three parts read from the decoded response.\<close>

definition read_parts :: "json \<Rightarrow> py_exception + json \<times> json \<times> json" where
  "read_parts response_data =
     bind (getpath response_data [Index 0, Name ''data'', Name ''clip'']) (\<lambda>clip_data.
     bind (getpath response_data
             [Index 1, Name ''data'', Name ''clip'', Name ''playbackAccessToken'']) (\<lambda>access_data.
     bind (getpath response_data
             [Index 1, Name ''data'', Name ''clip'', Name ''videoQualities'']) (\<lambda>video_qualities.
     Inr (clip_data, access_data, video_qualities))))"

text \<open>\<^verbatim>\<open>except (IndexError, KeyError, TypeError) as e: raise Exception(...)\<close>.\<close>

fun except_structure :: "py_exception + 'a \<Rightarrow> py_exception + 'a" where
  "except_structure (Inl (IndexError m)) =
     Inl (Exception (''Unexpected response structure: '' @ str_exc (IndexError m)))"
| "except_structure (Inl (KeyError k)) =
     Inl (Exception (''Unexpected response structure: '' @ str_exc (KeyError k)))"
| "except_structure (Inl (TypeError m)) =
     Inl (Exception (''Unexpected response structure: '' @ str_exc (TypeError m)))"
| "except_structure r = r"

text \<open>
  The first part of \<^verbatim>\<open>fetch_clip_info_sync\<close>, up to the end of the \<^verbatim>\<open>try\<close> statement:
  the token, the query, the status check, the decoding and the three parts.
\<close>

definition query_clip :: "environment \<Rightarrow> string \<Rightarrow> py_exception + json \<times> json \<times> json" where
  "query_clip env clip_id =
     bind (fetch_twitch_access_token env) (\<lambda>access_token_data.
     bind (getitem access_token_data (Name ''access_token'')) (\<lambda>access_token.
     case requests_post env (gql_call env access_token clip_id) of
       Inl m \<Rightarrow> Inl (RequestException m)
     | Inr response \<Rightarrow>
         if status_code response \<noteq> 200
         then Inl (Exception (''Failed to get clip info: '' @ response_text response))
         else (case json_result response of
                 Inl m \<Rightarrow> Inl (JSONDecodeError m)
               | Inr response_data \<Rightarrow> except_structure (read_parts response_data))))"

definition thumbnail_url_of :: "string \<Rightarrow> string" where
  "thumbnail_url_of slug = ''https://clips-media-assets2.twitch.tv/'' @ slug @ ''-preview-480x272.jpg''"

definition final_video_url :: "string \<Rightarrow> string \<Rightarrow> string \<Rightarrow> string" where
  "final_video_url source_url signature quoted_token =
     source_url @ ''?sig='' @ signature @ ''&token='' @ quoted_token"

text \<open>
  The rest of \<^verbatim>\<open>fetch_clip_info_sync\<close>, after the \<^verbatim>\<open>try\<close> statement; every subscript
  here raises to the caller as it is. The entries of the dict are evaluated in the order
  they are written.
\<close>

definition build_clip_info ::
  "environment \<Rightarrow> json \<Rightarrow> json \<Rightarrow> json \<Rightarrow> py_exception + clip_info" where
  "build_clip_info env clip_data access_data video_qualities =
     bind (getitem access_data (Name ''signature'')) (\<lambda>signature.
     bind (getitem access_data (Name ''value'')) (\<lambda>token.
     bind (getpath video_qualities [Index 0, Name ''sourceURL'']) (\<lambda>source_url.
     bind (quote token) (\<lambda>quoted_token.
     bind (getpath clip_data [Name ''broadcaster'', Name ''displayName'']) (\<lambda>display_name.
     bind (getitem clip_data (Name ''title'')) (\<lambda>clip_title.
     bind (getitem clip_data (Name ''slug'')) (\<lambda>slug.
     bind (getitem clip_data (Name ''viewCount'')) (\<lambda>views.
     bind (getpath clip_data [Name ''broadcaster'', Name ''login'']) (\<lambda>login.
     bind (getitem clip_data (Name ''slug'')) (\<lambda>slug'.
     Inr \<lparr>broadcaster_name = display_name,
          title = clip_title,
          url = ''https://clips.twitch.tv/'' @ fstr env slug,
          view_count = views,
          creator_name = login,
          thumbnail_url = thumbnail_url_of (fstr env slug'),
          video_url = final_video_url (fstr env source_url) (fstr env signature) quoted_token\<rparr>
     ))))))))))"

definition fetch_clip_info_sync :: "environment \<Rightarrow> string \<Rightarrow> py_exception + clip_info" where
  "fetch_clip_info_sync env clip_id =
     bind (query_clip env clip_id) (\<lambda>(clip_data, access_data, video_qualities).
       build_clip_info env clip_data access_data video_qualities)"

definition get_clip_info :: "environment \<Rightarrow> string \<Rightarrow> py_exception + clip_info" where
  "get_clip_info env clip_id = fetch_clip_info_sync env clip_id"

section \<open>The request router\<close>

text \<open>
  The inbound request: its method, its path and its headers, the names in lower case as
  the server passes them on.
\<close>

record request =
  http_method :: string
  path :: string
  headers :: "(string \<times> string) list"

datatype http_response =
    RedirectResponse string int
  | HTMLResponse string int
  | PlainTextResponse string int
  | JSONResponse json int

fun response_status :: "http_response \<Rightarrow> int" where
  "response_status (RedirectResponse u c) = c"
| "response_status (HTMLResponse b c) = c"
| "response_status (PlainTextResponse b c) = c"
| "response_status (JSONResponse b c) = c"

text \<open>\<^verbatim>\<open>request.headers.get(key, default)\<close>: the first header whose name is the lowercased key.\<close>

definition headers_get :: "(string \<times> string) list \<Rightarrow> string \<Rightarrow> string \<Rightarrow> string" where
  "headers_get hs k d = (case map_of hs (lower k) of None \<Rightarrow> d | Some v \<Rightarrow> v)"

definition GITHUB_REDIRECT_URL :: string where
  "GITHUB_REDIRECT_URL = ''https://github.com/RoyRiv3r/RoyRiv3r''"

definition root :: http_response where
  "root = RedirectResponse GITHUB_REDIRECT_URL 301"

text \<open>The f-string of the metadata document, line by line.\<close>

definition html_content :: "environment \<Rightarrow> clip_info \<Rightarrow> string" where
  \<open>html_content env clip_info =
     ''\<newline>'' @
     ''            <html>\<newline>'' @
     ''            <head>\<newline>'' @
     ''                <meta charset="utf-8">\<newline>'' @
     ''                <meta name="theme-color" content="#6441a5">\<newline>'' @
     ''                <meta property="og:title" content="'' @ fstr env (broadcaster_name clip_info) @ '' - '' @ fstr env (title clip_info) @ ''">\<newline>'' @
     ''                <meta property="og:type" content="video">\<newline>'' @
     ''                <meta property="og:site_name" content="'' @ [CHR 0xF0, CHR 0x9F, CHR 0x91, CHR 0x81, CHR 0xEF, CHR 0xB8, CHR 0x8F] @ '' Views: '' @ fstr env (view_count clip_info) @ '' | '' @ fstr env (creator_name clip_info) @ ''">\<newline>'' @
     ''                <meta property="og:url" content="'' @ url clip_info @ ''">\<newline>'' @
     ''                <meta property="og:video" content="'' @ video_url clip_info @ ''">\<newline>'' @
     ''                <meta property="og:video:secure_url" content="'' @ video_url clip_info @ ''">\<newline>'' @
     ''                <meta property="og:video:type" content="video/mp4">\<newline>'' @
     ''                <meta property="og:image" content="'' @ thumbnail_url clip_info @ ''">\<newline>'' @
     ''            </head>\<newline>'' @
     ''            <body>\<newline>'' @
     ''                <p>This page contains metadata for bots.</p>\<newline>'' @
     ''            </body>\<newline>'' @
     ''            </html>\<newline>'' @
     ''            ''\<close>

text \<open>
  \<^verbatim>\<open>handle_clip\<close>: whatever the resolution raises is caught and answered with status 500.
  Nothing after the resolution can raise: the key \<^verbatim>\<open>video_url\<close> is always there, and
  the header lookup has a default.
\<close>

definition handle_clip :: "environment \<Rightarrow> string \<Rightarrow> request \<Rightarrow> http_response" where
  "handle_clip env clip_id request =
     (case get_clip_info env clip_id of
        Inl e \<Rightarrow> PlainTextResponse (''Error: '' @ str_exc e) 500
      | Inr clip_info \<Rightarrow>
          let user_agent = lower (headers_get (headers request) ''user-agent'' [])
          in if is_bot user_agent
             then HTMLResponse (html_content env clip_info) 200
             else RedirectResponse (video_url clip_info) 301)"

text \<open>The middleware around every route; \<open>call_next\<close> is the rest of the application.\<close>

definition catch_not_found :: "request \<Rightarrow> (request \<Rightarrow> http_response) \<Rightarrow> http_response" where
  "catch_not_found request call_next =
     (let response = call_next request
      in if response_status response = 404
         then PlainTextResponse ''Not Found'' 404
         else response)"

text \<open>A tag \<^verbatim>\<open><meta property="p" content="v">\<close> of the document.\<close>

definition meta_property :: "string \<Rightarrow> string \<Rightarrow> string" where
  \<open>meta_property p v = ''<meta property="'' @ p @ ''" content="'' @ v @ ''">''\<close>

section \<open>Reading the metadata document\<close>





section \<open>The application behind the middleware\<close>

text \<open>
  The source registers its two routes with \<^verbatim>\<open>@app.get("/")\<close> and
  \<^verbatim>\<open>@app.get("/clip/{clip_id}")\<close> on \<^verbatim>\<open>app = FastAPI()\<close> and leaves the dispatch to the
  framework. The dispatch is modelled after the framework: Starlette's \<^verbatim>\<open>Route.matches\<close>,
  \<^verbatim>\<open>Route.handle\<close> and \<^verbatim>\<open>Router.app\<close> with the default \<^verbatim>\<open>redirect_slashes\<close>, and
  FastAPI's handler that turns an \<^verbatim>\<open>HTTPException\<close> into a JSON response.
\<close>

datatype match = NONE | PARTIAL | FULL

text \<open>
  A route: the paths its compiled regular expression matches, its methods, and its
  endpoint with the path parameters already taken from the path.
\<close>

record route =
  path_regex :: "string \<Rightarrow> bool"
  methods :: "string list"
  endpoint :: "request \<Rightarrow> http_response"

definition matches :: "route \<Rightarrow> request \<Rightarrow> match" where
  "matches route request =
     (if path_regex route (path request)
      then (if methods route \<noteq> [] \<and> http_method request \<notin> set (methods route) then PARTIAL else FULL)
      else NONE)"

definition http_exception :: "int \<Rightarrow> string \<Rightarrow> http_response" where
  "http_exception status detail = JSONResponse (JObj [(''detail'', JStr detail)]) status"

definition handle :: "route \<Rightarrow> request \<Rightarrow> http_response" where
  "handle route request =
     (if methods route \<noteq> [] \<and> http_method request \<notin> set (methods route)
      then http_exception 405 ''Method Not Allowed''
      else endpoint route request)"

text \<open>\<^verbatim>\<open>path.rstrip("/")\<close> when the path ends with a slash, \<^verbatim>\<open>path + "/"\<close> otherwise.\<close>

definition redirect_path :: "string \<Rightarrow> string" where
  "redirect_path p =
     (if suffix ''/'' p then rev (dropWhile (\<lambda>c. c = CHR ''/'') (rev p)) else p @ ''/'')"

text \<open>
  \<^verbatim>\<open>Router.app\<close>: the first full match is handled; else the first partial match (the
  path matches, the method does not); else, unless the path is \<^verbatim>\<open>/\<close>, a redirect of
  status 307 when the path with its trailing slash changed matches some route; else the
  exception of status 404. \<open>url_of\<close> is \<^verbatim>\<open>str(URL(scope=...))\<close>.
\<close>

definition router_app :: "route list \<Rightarrow> (request \<Rightarrow> string) \<Rightarrow> request \<Rightarrow> http_response" where
  "router_app routes url_of request =
     (case find (\<lambda>route. matches route request = FULL) routes of
        Some route \<Rightarrow> handle route request
      | None \<Rightarrow>
         (case find (\<lambda>route. matches route request = PARTIAL) routes of
            Some partial \<Rightarrow> handle partial request
          | None \<Rightarrow>
              let redirect_scope = request\<lparr>path := redirect_path (path request)\<rparr>
              in if path request \<noteq> ''/''
                    \<and> list_ex (\<lambda>route. matches route redirect_scope \<noteq> NONE) routes
                 then RedirectResponse (url_of redirect_scope) 307
                 else http_exception 404 ''Not Found''))"

text \<open>
  A path without parameters compiles to \<^verbatim>\<open>^path$\<close>, and \<^verbatim>\<open>$\<close> also matches before
  a final newline. \<^verbatim>\<open>/clip/{clip_id}\<close> compiles to \<^verbatim>\<open>^/clip/(?P<clip_id>[^/]+)$\<close>.
\<close>

definition exact_path :: "string \<Rightarrow> string \<Rightarrow> bool" where
  "exact_path r p = (p = r \<or> p = r @ ''\<newline>'')"

definition clip_path :: "string \<Rightarrow> bool" where
  "clip_path p = (prefix ''/clip/'' p \<and> drop 6 p \<noteq> [] \<and> CHR ''/'' \<notin> set (drop 6 p))"

definition app_routes :: "environment \<Rightarrow> route list" where
  "app_routes env =
     [\<lparr>path_regex = exact_path ''/'', methods = [''GET''], endpoint = (\<lambda>request. root)\<rparr>,
      \<lparr>path_regex = clip_path, methods = [''GET''],
       endpoint = (\<lambda>request. handle_clip env (drop 6 (path request)) request)\<rparr>]"

text \<open>
  What the framework adds: the routes it registers itself before the routes of the source
  (the documentation pages of \<^verbatim>\<open>FastAPI()\<close>), and the URL of a request.
\<close>

record framework =
  builtin_routes :: "route list"
  scope_url :: "request \<Rightarrow> string"

definition app :: "framework \<Rightarrow> environment \<Rightarrow> request \<Rightarrow> http_response" where
  "app fw env request =
     catch_not_found request (router_app (builtin_routes fw @ app_routes env) (scope_url fw))"

definition no_route_matches :: "route list \<Rightarrow> request \<Rightarrow> bool" where
  "no_route_matches routes request = list_all (\<lambda>route. matches route request = NONE) routes"

section \<open>Kinds of failure\<close>

text \<open>
  The source has no exception classes of its own; the three failures it signals itself
  are told apart by the message of the \<^verbatim>\<open>Exception\<close> it raises.
\<close>

definition token_request_failed :: "py_exception \<Rightarrow> bool" where
  "token_request_failed e =
     (case e of Exception m \<Rightarrow> prefix ''Failed to get access token: '' m | _ \<Rightarrow> False)"

definition query_request_failed :: "py_exception \<Rightarrow> bool" where
  "query_request_failed e =
     (case e of Exception m \<Rightarrow> prefix ''Failed to get clip info: '' m | _ \<Rightarrow> False)"

definition unexpected_structure :: "py_exception \<Rightarrow> bool" where
  "unexpected_structure e =
     (case e of Exception m \<Rightarrow> prefix ''Unexpected response structure: '' m | _ \<Rightarrow> False)"

section \<open>Sample upstream answers\<close>

definition sample_clip :: json where
  "sample_clip =
     JObj [(''broadcaster'', JObj [(''displayName'', JStr ''Streamer''), (''login'', JStr ''streamer'')]),
           (''title'', JStr ''Nice play''),
           (''slug'', JStr ''FunnyClipSlug''),
           (''viewCount'', JInt 1520)]"

definition sample_qualities :: json where
  "sample_qualities =
     JArr [JObj [(''quality'', JStr ''1080''), (''sourceURL'', JStr ''https://cdn.example/c-1080.mp4'')],
           JObj [(''quality'', JStr ''720''), (''sourceURL'', JStr ''https://cdn.example/c-720.mp4'')]]"

definition sample_body :: "json \<Rightarrow> json" where
  \<open>sample_body qualities =
     JArr [JObj [(''data'', JObj [(''clip'', sample_clip)])],
           JObj [(''data'', JObj [(''clip'',
             JObj [(''playbackAccessToken'',
                      JObj [(''signature'', JStr ''abc123''), (''value'', JStr ''{"clip":1}'')]),
                   (''videoQualities'', qualities)])])]]\<close>

definition replies :: "int \<Rightarrow> json \<Rightarrow> response" where
  "replies code body =
     \<lparr>status_code = code, response_text = ''upstream says no'', json_result = Inr body\<rparr>"

text \<open>\<^verbatim>\<open>str\<close> on the values the samples format: an \<^verbatim>\<open>int\<close> in decimal, \<^verbatim>\<open>None\<close>.\<close>

definition sample_str :: "json \<Rightarrow> string" where
  "sample_str v =
     (case v of JInt n \<Rightarrow> (if n < 0 then ''-'' @ dec (nat (- n)) else dec (nat n)) | _ \<Rightarrow> ''None'')"

text \<open>An upstream that answers the token call with one response and the query with another.\<close>

definition sample_env :: "response \<Rightarrow> response \<Rightarrow> environment" where
  "sample_env token_response gql_response =
     \<lparr>TWITCH_CLIENT_ID = Some ''id'', TWITCH_CLIENT_SECRET = Some ''secret'',
      requests_post = (\<lambda>call. if post_url call = ''https://id.twitch.tv/oauth2/token''
                               then Inr token_response else Inr gql_response),
      py_str = sample_str\<rparr>"

definition sample_token :: response where
  "sample_token = replies 200 (JObj [(''access_token'', JStr ''tok''), (''expires_in'', JInt 5000)])"

definition sample_ok :: environment where
  "sample_ok = sample_env sample_token (replies 200 (sample_body sample_qualities))"

definition sample_info :: clip_info where
  "sample_info =
     \<lparr>broadcaster_name = JStr ''Streamer'', title = JStr ''Nice play'',
      url = ''https://clips.twitch.tv/FunnyClipSlug'', view_count = JInt 1520,
      creator_name = JStr ''streamer'',
      thumbnail_url = ''https://clips-media-assets2.twitch.tv/FunnyClipSlug-preview-480x272.jpg'',
      video_url = ''https://cdn.example/c-1080.mp4?sig=abc123&token=%7B%22clip%22%3A1%7D''\<rparr>"

definition browser :: request where
  "browser = \<lparr>http_method = ''GET'', path = ''/clip/FunnyClipSlug'',
               headers = [(''host'', ''example.org''),
                          (''user-agent'', ''Mozilla/5.0 (Windows NT 10.0; Win64; x64)'')]\<rparr>"


definition anonymous :: request where
  "anonymous = \<lparr>http_method = ''GET'', path = ''/clip/FunnyClipSlug'', headers = [(''host'', ''example.org'')]\<rparr>"




text \<open>The documentation routes of \<^verbatim>\<open>FastAPI()\<close>, and a URL made of a fixed host and the path.\<close>

definition docs_routes :: "route list" where
  "docs_routes =
     map (\<lambda>p. \<lparr>path_regex = exact_path p, methods = [''GET'', ''HEAD''],
              endpoint = (\<lambda>request. HTMLResponse ''documentation'' 200)\<rparr>)
       [''/openapi.json'', ''/docs'', ''/docs/oauth2-redirect'', ''/redoc'']"

definition sample_framework :: framework where
  "sample_framework =
     \<lparr>builtin_routes = docs_routes, scope_url = (\<lambda>request. ''http://example.org'' @ path request)\<rparr>"

definition get :: "string \<Rightarrow> request" where
  "get p = \<lparr>http_method = ''GET'', path = p, headers = [(''host'', ''example.org'')]\<rparr>"

section \<open>Properties\<close>

subsection \<open>Auxiliary facts\<close>

lemma bind_Inr_iff: "bind m f = Inr y \<longleftrightarrow> (\<exists>x. m = Inr x \<and> f x = Inr y)"
  by (cases m) (simp_all add: bind_def)

lemma bind_Inl: "bind (Inl e) f = Inl e"
  by (simp add: bind_def)

lemma bind_Inr: "bind (Inr x) f = f x"
  by (simp add: bind_def)

lemma first_entry:
  assumes "getpath v [Index 0, Name k] = Inr x"
  shows "\<exists>q rest. v = JArr (q # rest) \<and> getitem q (Name k) = Inr x"
proof (cases v)
  case (JArr xs)
  with assms show ?thesis
    by (cases xs) (auto simp: bind_def split: sum.splits)
next
  case (JStr s)
  with assms show ?thesis
    by (simp add: bind_def split: if_splits)
qed (use assms in \<open>simp_all add: bind_def split: sum.splits\<close>)

lemma quote_Inr: "quote v = Inr q \<Longrightarrow> \<exists>t. v = JStr t \<and> q = concat (map quote_byte t)"
  by (cases v) auto

lemma build_clip_info_Inr:
  assumes "build_clip_info env clip_data access_data video_qualities = Inr info"
  shows "\<exists>signature token source_url slug.
           getitem access_data (Name ''signature'') = Inr signature
         \<and> getitem access_data (Name ''value'') = Inr token
         \<and> getpath video_qualities [Index 0, Name ''sourceURL''] = Inr source_url
         \<and> getitem clip_data (Name ''slug'') = Inr slug
         \<and> (\<exists>quoted. quote token = Inr quoted
              \<and> video_url info = final_video_url (fstr env source_url) (fstr env signature) quoted)
         \<and> thumbnail_url info = thumbnail_url_of (fstr env slug)"
  using assms unfolding build_clip_info_def bind_Inr_iff
  by (elim exE conjE) auto

lemma fetch_clip_info_sync_Inr:
  assumes "fetch_clip_info_sync env clip_id = Inr info"
  shows "\<exists>clip_data access_data video_qualities.
           query_clip env clip_id = Inr (clip_data, access_data, video_qualities)
         \<and> build_clip_info env clip_data access_data video_qualities = Inr info"
  using assms unfolding fetch_clip_info_sync_def bind_Inr_iff by auto

lemma hexdigit_safe: "hexdigit n \<in> set always_safe"
proof -
  have "n mod 16 < length ''0123456789ABCDEF''" by simp
  then have "hexdigit n \<in> set ''0123456789ABCDEF''"
    unfolding hexdigit_def by (rule nth_mem)
  moreover have "set ''0123456789ABCDEF'' \<subseteq> set always_safe"
    by (simp add: always_safe_def)
  ultimately show ?thesis by blast
qed

lemma quote_byte_chars: "set (quote_byte c) \<subseteq> set (always_safe @ ''/%'')"
  using hexdigit_safe by (auto simp: quote_byte_def)

lemma quoted_chars: "set (concat (map quote_byte t)) \<subseteq> set (always_safe @ ''/%'')"
  using quote_byte_chars by fastforce

lemma thumbnail_url_of_inj: "thumbnail_url_of s1 = thumbnail_url_of s2 \<Longrightarrow> s1 = s2"
  by (simp add: thumbnail_url_of_def)



lemma lower_user_agent: "lower ''user-agent'' = ''user-agent''"
  by code_simp


lemma not_bot_empty: "\<not> is_bot []"
  by (simp add: is_bot_def bot_agents_def)



lemma handle_clip_failure:
  "fetch_clip_info_sync env clip_id = Inl e \<Longrightarrow>
   handle_clip env clip_id request = PlainTextResponse (''Error: '' @ str_exc e) 500"
  by (simp add: handle_clip_def get_clip_info_def)

lemma handle_clip_success:
  "fetch_clip_info_sync env clip_id = Inr info \<Longrightarrow>
   handle_clip env clip_id request =
     (if is_bot (lower (headers_get (headers request) ''user-agent'' []))
      then HTMLResponse (html_content env info) 200
      else RedirectResponse (video_url info) 301)"
  by (simp add: handle_clip_def get_clip_info_def)

lemma catch_not_found_other:
  "response_status (call_next request) \<noteq> 404 \<Longrightarrow> catch_not_found request call_next = call_next request"
  by (simp add: catch_not_found_def Let_def)

lemma handle_clip_status: "response_status (handle_clip env clip_id request) \<in> {200, 301, 500}"
  by (cases "fetch_clip_info_sync env clip_id") (simp_all add: handle_clip_failure handle_clip_success)

lemma middleware_handle_clip:
  "catch_not_found request (handle_clip env clip_id) = handle_clip env clip_id request"
  using handle_clip_status [of env clip_id request] by (intro catch_not_found_other) auto

lemma bind_Inl_iff: "bind m f = Inl e \<longleftrightarrow> m = Inl e \<or> (\<exists>x. m = Inr x \<and> f x = Inl e)"
  by (cases m) (simp_all add: bind_def)

lemma getitem_raises:
  "getitem v k = Inl e \<Longrightarrow> (\<exists>m. e = IndexError m) \<or> (\<exists>k'. e = KeyError k') \<or> (\<exists>m. e = TypeError m)"
  by (cases v; cases k) (auto split: option.splits if_splits)

lemma getpath_raises:
  "getpath v ks = Inl e \<Longrightarrow> (\<exists>m. e = IndexError m) \<or> (\<exists>k'. e = KeyError k') \<or> (\<exists>m. e = TypeError m)"
proof (induction ks arbitrary: v)
  case Nil
  then show ?case by simp
next
  case (Cons k ks)
  show ?case
  proof (cases "getitem v k")
    case (Inl e')
    with Cons.prems have "e' = e" by (simp add: bind_def)
    with Inl getitem_raises show ?thesis by blast
  next
    case (Inr x)
    with Cons.prems have "getpath x ks = Inl e" by (simp add: bind_def)
    then show ?thesis by (rule Cons.IH)
  qed
qed

lemma read_parts_raises:
  assumes "read_parts response_data = Inl e"
  shows "(\<exists>m. e = IndexError m) \<or> (\<exists>k'. e = KeyError k') \<or> (\<exists>m. e = TypeError m)"
proof -
  from assms obtain ks where "getpath response_data ks = Inl e"
    unfolding read_parts_def bind_Inl_iff by blast
  then show ?thesis by (rule getpath_raises)
qed

lemma except_structure_wraps:
  assumes "read_parts response_data = Inl e"
  shows "except_structure (Inl e :: py_exception + 'a) =
           Inl (Exception (''Unexpected response structure: '' @ str_exc e))"
  using read_parts_raises [OF assms] by auto

text \<open>What the query does once the token is there, by the status and the body of the response.\<close>

lemma query_clip_outcomes:
  assumes "fetch_twitch_access_token env = Inr token_data"
    and "getitem token_data (Name ''access_token'') = Inr access_token"
    and "requests_post env (gql_call env access_token clip_id) = Inr r"
  shows "status_code r \<noteq> 200 \<Longrightarrow>
           query_clip env clip_id = Inl (Exception (''Failed to get clip info: '' @ response_text r))"
    and "status_code r = 200 \<Longrightarrow> json_result r = Inr response_data \<Longrightarrow>
           read_parts response_data = Inl e \<Longrightarrow>
           query_clip env clip_id =
             Inl (Exception (''Unexpected response structure: '' @ str_exc e))"
    and "status_code r = 200 \<Longrightarrow> json_result r = Inr response_data \<Longrightarrow>
           read_parts response_data = Inr parts \<Longrightarrow> query_clip env clip_id = Inr parts"
  using assms by (simp_all add: query_clip_def bind_def except_structure_wraps)

lemma token_failure_propagates:
  "get_twitch_access_token env = Inl e \<Longrightarrow> fetch_clip_info_sync env clip_id = Inl e"
  by (auto simp: get_twitch_access_token_def fetch_clip_info_sync_def query_clip_def bind_def
      split: sum.splits)

lemma token_request_failed_simps:
  "token_request_failed (Exception (''Failed to get access token: '' @ t))"
  "\<not> token_request_failed (KeyError k)"
  "\<not> token_request_failed (IndexError m)"
  "\<not> token_request_failed (TypeError m)"
  "\<not> token_request_failed (JSONDecodeError m)"
  "\<not> token_request_failed (RequestException m)"
  by (simp_all add: token_request_failed_def)

lemma getitem_token_not_failed:
  "getitem v k = Inl e \<Longrightarrow> \<not> token_request_failed e"
  using getitem_raises [of v k e] by (auto simp: token_request_failed_simps)

lemma getitem_Name_Inr:
  "getitem v (Name k) = Inr x \<longleftrightarrow> (\<exists>kvs. v = JObj kvs \<and> map_of kvs k = Some x)"
  by (cases v) (auto split: option.splits)

lemma html_content_tags:
  \<open>\<exists>pre post. html_content env info =
      pre @ meta_property ''og:video'' (video_url info) @ ''\<newline>                ''
          @ meta_property ''og:video:secure_url'' (video_url info) @ post\<close>
proof -
  let ?pre = \<open>''\<newline>'' @
     ''            <html>\<newline>'' @
     ''            <head>\<newline>'' @
     ''                <meta charset="utf-8">\<newline>'' @
     ''                <meta name="theme-color" content="#6441a5">\<newline>'' @
     ''                <meta property="og:title" content="'' @ fstr env (broadcaster_name info) @ '' - '' @ fstr env (title info) @ ''">\<newline>'' @
     ''                <meta property="og:type" content="video">\<newline>'' @
     ''                <meta property="og:site_name" content="'' @ [CHR 0xF0, CHR 0x9F, CHR 0x91, CHR 0x81, CHR 0xEF, CHR 0xB8, CHR 0x8F] @ '' Views: '' @ fstr env (view_count info) @ '' | '' @ fstr env (creator_name info) @ ''">\<newline>'' @
     ''                <meta property="og:url" content="'' @ url info @ ''">\<newline>'' @
     ''                ''\<close>
  let ?post = \<open>''\<newline>'' @
     ''                <meta property="og:video:type" content="video/mp4">\<newline>'' @
     ''                <meta property="og:image" content="'' @ thumbnail_url info @ ''">\<newline>'' @
     ''            </head>\<newline>'' @
     ''            <body>\<newline>'' @
     ''                <p>This page contains metadata for bots.</p>\<newline>'' @
     ''            </body>\<newline>'' @
     ''            </html>\<newline>'' @
     ''            ''\<close>
  have \<open>html_content env info =
      ?pre @ meta_property ''og:video'' (video_url info) @ ''\<newline>                ''
          @ meta_property ''og:video:secure_url'' (video_url info) @ ?post\<close>
    by (simp add: html_content_def meta_property_def)
  then show ?thesis by blast
qed












lemma find_no_match:
  assumes "no_route_matches routes request" and "m \<noteq> NONE"
  shows "find (\<lambda>route. matches route request = m) routes = None"
  using assms by (auto simp: no_route_matches_def find_None_iff list_all_iff)

lemma no_redirect:
  assumes "no_route_matches routes request"
  shows "\<not> list_ex (\<lambda>route. matches route request \<noteq> NONE) routes"
  using assms by (auto simp: no_route_matches_def list_all_iff list_ex_iff)

lemma catch_not_found_404:
  assumes "response_status (call_next request) = 404"
  shows "catch_not_found request call_next = PlainTextResponse ''Not Found'' 404"
  using assms by (simp add: catch_not_found_def Let_def)

lemma unmatched_not_root:
  assumes "no_route_matches (routes @ app_routes env) request"
  shows "path request \<noteq> ''/''"
  using assms
  by (auto simp: no_route_matches_def app_routes_def matches_def exact_path_def split: if_splits)

lemma router_app_unmatched:
  assumes "no_route_matches routes request"
  shows "no_route_matches routes (request\<lparr>path := redirect_path (path request)\<rparr>) \<Longrightarrow>
           router_app routes url_of request = http_exception 404 ''Not Found''"
    and "\<not> no_route_matches routes (request\<lparr>path := redirect_path (path request)\<rparr>) \<Longrightarrow>
           path request \<noteq> ''/'' \<Longrightarrow>
           router_app routes url_of request =
             RedirectResponse (url_of (request\<lparr>path := redirect_path (path request)\<rparr>)) 307"
proof -
  have f: "find (\<lambda>route. matches route request = FULL) routes = None"
    "find (\<lambda>route. matches route request = PARTIAL) routes = None"
    using assms by (simp_all add: find_no_match)
  show "router_app routes url_of request = http_exception 404 ''Not Found''"
    if "no_route_matches routes (request\<lparr>path := redirect_path (path request)\<rparr>)"
    using f no_redirect [OF that] by (auto simp: router_app_def Let_def)
  show "router_app routes url_of request =
      RedirectResponse (url_of (request\<lparr>path := redirect_path (path request)\<rparr>)) 307"
    if "\<not> no_route_matches routes (request\<lparr>path := redirect_path (path request)\<rparr>)"
      and "path request \<noteq> ''/''"
  proof -
    have "list_ex (\<lambda>route. matches route (request\<lparr>path := redirect_path (path request)\<rparr>) \<noteq> NONE) routes"
      using that(1) by (auto simp: no_route_matches_def list_all_iff list_ex_iff)
    with f that(2) show ?thesis
      by (simp add: router_app_def Let_def)
  qed
qed






subsection \<open>The resolved video URL\<close>

text \<open>
  Claim C1. Whenever \<^verbatim>\<open>fetch_clip_info_sync\<close> returns, the quality variants the query gave
  are a non-empty list, and \<open>video_url\<close> is the \<^verbatim>\<open>sourceURL\<close> of its first entry,
  followed by \<^verbatim>\<open>?sig=\<close> and the signature, followed by \<^verbatim>\<open>&token=\<close> and the
  percent-encoded value of the playback token (which is a string, and whose encoding has
  only unreserved characters, \<^verbatim>\<open>/\<close> and \<^verbatim>\<open>%\<close>). So \<open>video_url\<close> is not empty and
  contains both query parameters. The list is read at index 0 as it came; nothing sorts it.
\<close>

theorem video_url_first_quality:
  assumes "fetch_clip_info_sync env clip_id = Inr info"
  shows "\<exists>clip_data access_data q rest source_url signature token.
           query_clip env clip_id = Inr (clip_data, access_data, JArr (q # rest))
         \<and> getitem q (Name ''sourceURL'') = Inr source_url
         \<and> getitem access_data (Name ''signature'') = Inr signature
         \<and> getitem access_data (Name ''value'') = Inr (JStr token)
         \<and> video_url info =
             fstr env source_url @ ''?sig='' @ fstr env signature @ ''&token='' @ concat (map quote_byte token)
         \<and> set (concat (map quote_byte token)) \<subseteq> set (always_safe @ ''/%'')
         \<and> video_url info \<noteq> []
         \<and> sublist ''?sig='' (video_url info)
         \<and> sublist ''&token='' (video_url info)"
proof -
  from fetch_clip_info_sync_Inr [OF assms] obtain clip_data access_data video_qualities
    where q: "query_clip env clip_id = Inr (clip_data, access_data, video_qualities)"
      and b: "build_clip_info env clip_data access_data video_qualities = Inr info"
    by blast
  from build_clip_info_Inr [OF b] obtain signature token source_url quoted
    where sg: "getitem access_data (Name ''signature'') = Inr signature"
      and tk: "getitem access_data (Name ''value'') = Inr token"
      and su: "getpath video_qualities [Index 0, Name ''sourceURL''] = Inr source_url"
      and qu: "quote token = Inr quoted"
      and vu: "video_url info = final_video_url (fstr env source_url) (fstr env signature) quoted"
    by blast
  from first_entry [OF su] obtain q rest
    where vq: "video_qualities = JArr (q # rest)" and src: "getitem q (Name ''sourceURL'') = Inr source_url"
    by blast
  from quote_Inr [OF qu] obtain t where t: "token = JStr t" "quoted = concat (map quote_byte t)"
    by blast
  have url: "video_url info =
      fstr env source_url @ ''?sig='' @ fstr env signature @ ''&token='' @ concat (map quote_byte t)"
    using vu t by (simp add: final_video_url_def)
  have s1: "sublist ''?sig='' (video_url info)"
    unfolding sublist_def url by blast
  have "video_url info =
      (fstr env source_url @ ''?sig='' @ fstr env signature) @ ''&token='' @ concat (map quote_byte t)"
    using url by simp
  then have s2: "sublist ''&token='' (video_url info)"
    unfolding sublist_def by blast
  have ne: "video_url info \<noteq> []"
    using url by simp
  show ?thesis
    using q vq src sg tk t url quoted_chars [of t] ne s1 s2 by blast
qed

theorem video_url_first_quality_witness:
  "fetch_clip_info_sync sample_ok ''FunnyClipSlug'' = Inr sample_info
   \<and> (\<exists>clip_data access_data q rest source_url signature token.
           query_clip sample_ok ''FunnyClipSlug'' = Inr (clip_data, access_data, JArr (q # rest))
         \<and> getitem q (Name ''sourceURL'') = Inr source_url
         \<and> getitem access_data (Name ''signature'') = Inr signature
         \<and> getitem access_data (Name ''value'') = Inr (JStr token)
         \<and> video_url sample_info =
             fstr sample_ok source_url @ ''?sig='' @ fstr sample_ok signature @ ''&token=''
               @ concat (map quote_byte token)
         \<and> set (concat (map quote_byte token)) \<subseteq> set (always_safe @ ''/%'')
         \<and> video_url sample_info \<noteq> []
         \<and> sublist ''?sig='' (video_url sample_info)
         \<and> sublist ''&token='' (video_url sample_info))"
proof -
  have h: "fetch_clip_info_sync sample_ok ''FunnyClipSlug'' = Inr sample_info"
    by code_simp
  show ?thesis
    using h video_url_first_quality [OF h] by (rule conjI)
qed

subsection \<open>Classification of the client\<close>



subsection \<open>Responses of the clip route\<close>

text \<open>
  Claim C4. When the resolution succeeds and the client is not classified as automated,
  the handler answers with a redirect of status 301 whose target is the resolved
  \<open>video_url\<close>, unchanged; the middleware passes it on, and the answer is no HTML response.
\<close>

theorem regular_redirect:
  assumes "fetch_clip_info_sync env clip_id = Inr info"
    and "\<not> is_bot (lower (headers_get (headers request) ''user-agent'' []))"
  shows "handle_clip env clip_id request = RedirectResponse (video_url info) 301
    \<and> catch_not_found request (handle_clip env clip_id) = RedirectResponse (video_url info) 301
    \<and> (\<forall>content status. handle_clip env clip_id request \<noteq> HTMLResponse content status)"
  using assms by (simp add: middleware_handle_clip handle_clip_success)

theorem regular_redirect_witness:
  "fetch_clip_info_sync sample_ok ''FunnyClipSlug'' = Inr sample_info
   \<and> \<not> is_bot (lower (headers_get (headers browser) ''user-agent'' []))
   \<and> handle_clip sample_ok ''FunnyClipSlug'' browser = RedirectResponse (video_url sample_info) 301
   \<and> catch_not_found browser (handle_clip sample_ok ''FunnyClipSlug'') =
       RedirectResponse (video_url sample_info) 301
   \<and> (\<forall>content status. handle_clip sample_ok ''FunnyClipSlug'' browser \<noteq> HTMLResponse content status)"
proof -
  have h1: "fetch_clip_info_sync sample_ok ''FunnyClipSlug'' = Inr sample_info"
    by code_simp
  have h2: "\<not> is_bot (lower (headers_get (headers browser) ''user-agent'' []))"
    by code_simp
  show ?thesis
    using h1 h2 regular_redirect [OF h1 h2] by (intro conjI) blast+
qed

text \<open>
  The metadata document holds the two tags with the resolved \<open>video_url\<close> as their
  content, one after the other: the URL is inserted as it is.
\<close>

lemma crawler_document:
  assumes "fetch_clip_info_sync env clip_id = Inr info"
    and "is_bot (lower (headers_get (headers request) ''user-agent'' []))"
  shows \<open>\<exists>pre post.
      handle_clip env clip_id request =
        HTMLResponse (pre @ meta_property ''og:video'' (video_url info) @ ''\<newline>                ''
                          @ meta_property ''og:video:secure_url'' (video_url info) @ post) 200
    \<and> catch_not_found request (handle_clip env clip_id) = handle_clip env clip_id request\<close>
proof -
  have "handle_clip env clip_id request = HTMLResponse (html_content env info) 200"
    using assms by (simp add: handle_clip_success)
  with html_content_tags [of env info] middleware_handle_clip [of request env clip_id]
  show ?thesis by metis
qed




text \<open>
  Claim C8. Whatever exception the resolution raises, the handler returns a plain-text
  response with status 500 whose body is \<^verbatim>\<open>Error: \<close> followed by the text of the
  exception. The handler is a total function into responses: no exception leaves it, and
  the middleware passes the response on.
\<close>

theorem failure_500:
  assumes "fetch_clip_info_sync env clip_id = Inl e"
  shows "handle_clip env clip_id request = PlainTextResponse (''Error: '' @ str_exc e) 500
    \<and> catch_not_found request (handle_clip env clip_id) = PlainTextResponse (''Error: '' @ str_exc e) 500"
  using assms by (simp add: middleware_handle_clip handle_clip_failure)

theorem failure_500_witness:
  "fetch_clip_info_sync (sample_env sample_token (replies 503 JNull)) ''FunnyClipSlug'' =
     Inl (Exception ''Failed to get clip info: upstream says no'')
   \<and> handle_clip (sample_env sample_token (replies 503 JNull)) ''FunnyClipSlug'' browser =
       PlainTextResponse ''Error: Failed to get clip info: upstream says no'' 500
   \<and> catch_not_found browser (handle_clip (sample_env sample_token (replies 503 JNull)) ''FunnyClipSlug'') =
       PlainTextResponse ''Error: Failed to get clip info: upstream says no'' 500"
proof -
  have h: "fetch_clip_info_sync (sample_env sample_token (replies 503 JNull)) ''FunnyClipSlug'' =
      Inl (Exception ''Failed to get clip info: upstream says no'')"
    by code_simp
  show ?thesis
    using h failure_500 [OF h, of browser] by simp
qed

text \<open>
  Claim C10. A request without a user-agent header, or with an empty one, is classified on
  the empty string, which contains no marker; on a successful resolution it is answered
  with the redirect of status 301 to the video URL.
\<close>

theorem no_user_agent:
  assumes "fetch_clip_info_sync env clip_id = Inr info"
    and "map_of (headers request) ''user-agent'' = None \<or> map_of (headers request) ''user-agent'' = Some []"
  shows "lower (headers_get (headers request) ''user-agent'' []) = []
    \<and> \<not> is_bot (lower (headers_get (headers request) ''user-agent'' []))
    \<and> handle_clip env clip_id request = RedirectResponse (video_url info) 301"
proof -
  have "headers_get (headers request) ''user-agent'' [] = []"
    using assms(2) by (auto simp: headers_get_def lower_user_agent)
  then have "lower (headers_get (headers request) ''user-agent'' []) = []"
    by (simp add: lower_def)
  then show ?thesis
    using assms(1) by (simp add: handle_clip_success not_bot_empty)
qed

theorem no_user_agent_witness:
  "fetch_clip_info_sync sample_ok ''FunnyClipSlug'' = Inr sample_info
   \<and> (map_of (headers anonymous) ''user-agent'' = None
        \<or> map_of (headers anonymous) ''user-agent'' = Some [])
   \<and> lower (headers_get (headers anonymous) ''user-agent'' []) = []
   \<and> \<not> is_bot (lower (headers_get (headers anonymous) ''user-agent'' []))
   \<and> handle_clip sample_ok ''FunnyClipSlug'' anonymous = RedirectResponse (video_url sample_info) 301"
proof -
  have h1: "fetch_clip_info_sync sample_ok ''FunnyClipSlug'' = Inr sample_info"
    by code_simp
  have "map_of (headers anonymous) ''user-agent'' = None"
    by code_simp
  then have h2: "map_of (headers anonymous) ''user-agent'' = None
      \<or> map_of (headers anonymous) ''user-agent'' = Some []"
    by (rule disjI1)
  show ?thesis
    using h1 h2 no_user_agent [OF h1 h2] by (intro conjI) blast+
qed

subsection \<open>Failures of the resolver\<close>

text \<open>
  Claim C5. The query that answers with a status other than 200 raises the exception
  \<^verbatim>\<open>Failed to get clip info\<close>, and a part missing on the way to the clip, the playback
  token or the quality list raises \<^verbatim>\<open>Unexpected response structure\<close> (lemma
  \<open>query_clip_outcomes\<close>). An empty quality list is not among them: the list is read
  at index 0 after the \<^verbatim>\<open>try\<close> statement has ended, so the \<^verbatim>\<open>IndexError\<close> leaves
  \<^verbatim>\<open>fetch_clip_info_sync\<close> as it is, while the same \<^verbatim>\<open>IndexError\<close> on the response list
  itself, inside the \<^verbatim>\<open>try\<close> statement, is turned into \<^verbatim>\<open>Unexpected response structure\<close>.
\<close>

theorem empty_quality_list:
  "fetch_clip_info_sync (sample_env sample_token (replies 200 (sample_body (JArr [])))) ''FunnyClipSlug'' =
     Inl (IndexError ''list index out of range'')
   \<and> unexpected_structure (IndexError ''list index out of range'') = False
   \<and> query_request_failed (IndexError ''list index out of range'') = False
   \<and> fetch_clip_info_sync (sample_env sample_token (replies 200 (JArr []))) ''FunnyClipSlug'' =
       Inl (Exception ''Unexpected response structure: list index out of range'')"
  by code_simp

text \<open>
  Claim C6, as stated, fails: a response with status 200 whose body has no
  \<^verbatim>\<open>access_token\<close> field makes the token provider fail, but with the \<^verbatim>\<open>KeyError\<close> of the
  subscript, not with the exception \<^verbatim>\<open>Failed to get access token\<close> that a status other
  than 200 raises.
\<close>

theorem access_token_field_missing_counterexample:
  "status_code (replies 200 (JObj [(''token_type'', JStr ''bearer'')])) = 200
   \<and> getitem (JObj [(''token_type'', JStr ''bearer'')]) (Name ''access_token'') =
       Inl (KeyError (Name ''access_token''))
   \<and> get_twitch_access_token (sample_env (replies 200 (JObj [(''token_type'', JStr ''bearer'')])) sample_token) =
       Inl (KeyError (Name ''access_token''))
   \<and> token_request_failed (KeyError (Name ''access_token'')) = False"
  by code_simp

text \<open>
  Claim C6, amended. When the identity endpoint answers, the token provider raises
  \<^verbatim>\<open>Failed to get access token\<close> exactly when the status is not 200; it returns the token
  exactly when the status is 200 and the body is an object with an \<^verbatim>\<open>access_token\<close>
  field, whose value it returns; and for status 200 and an object without that field it
  raises \<^verbatim>\<open>KeyError('access_token')\<close>.
\<close>

theorem access_token_outcomes:
  assumes "requests_post env (token_call env) = Inr r"
  shows "(status_code r \<noteq> 200 \<longrightarrow>
            get_twitch_access_token env =
              Inl (Exception (''Failed to get access token: '' @ response_text r)))
    \<and> ((\<exists>e. get_twitch_access_token env = Inl e \<and> token_request_failed e) \<longleftrightarrow> status_code r \<noteq> 200)
    \<and> (get_twitch_access_token env = Inr tok \<longleftrightarrow>
         status_code r = 200
         \<and> (\<exists>kvs. json_result r = Inr (JObj kvs) \<and> map_of kvs ''access_token'' = Some tok))
    \<and> (status_code r = 200 \<and> json_result r = Inr (JObj kvs) \<and> map_of kvs ''access_token'' = None \<longrightarrow>
         get_twitch_access_token env = Inl (KeyError (Name ''access_token'')))"
proof (cases "status_code r = 200")
  case False
  then have "get_twitch_access_token env =
      Inl (Exception (''Failed to get access token: '' @ response_text r))"
    using assms by (simp add: get_twitch_access_token_def fetch_twitch_access_token_def bind_def)
  with False show ?thesis
    by (auto simp add: token_request_failed_simps simp del: append.simps)
next
  case True
  show ?thesis
  proof (cases "json_result r")
    case (Inl m)
    with True assms have "get_twitch_access_token env = Inl (JSONDecodeError m)"
      by (simp add: get_twitch_access_token_def fetch_twitch_access_token_def bind_def)
    with True Inl show ?thesis
      by (simp add: token_request_failed_simps)
  next
    case (Inr data)
    with True assms have g: "get_twitch_access_token env = getitem data (Name ''access_token'')"
      by (simp add: get_twitch_access_token_def fetch_twitch_access_token_def bind_def)
    have "\<not> (\<exists>e. getitem data (Name ''access_token'') = Inl e \<and> token_request_failed e)"
      using getitem_token_not_failed by blast
    with True Inr g show ?thesis
      by (auto simp: getitem_Name_Inr)
  qed
qed

theorem access_token_outcomes_witness:
  "requests_post (sample_env (replies 401 JNull) sample_token)
       (token_call (sample_env (replies 401 JNull) sample_token)) = Inr (replies 401 JNull)
   \<and> get_twitch_access_token (sample_env (replies 401 JNull) sample_token) =
       Inl (Exception ''Failed to get access token: upstream says no'')
   \<and> requests_post sample_ok (token_call sample_ok) = Inr sample_token
   \<and> get_twitch_access_token sample_ok = Inr (JStr ''tok'')"
proof -
  have h1: "requests_post (sample_env (replies 401 JNull) sample_token)
       (token_call (sample_env (replies 401 JNull) sample_token)) = Inr (replies 401 JNull)"
    by (simp add: sample_env_def token_call_def)
  have h2: "requests_post sample_ok (token_call sample_ok) = Inr sample_token"
    by (simp add: sample_ok_def sample_env_def token_call_def)
  have "status_code (replies 401 JNull) \<noteq> 200"
    by (simp add: replies_def)
  with access_token_outcomes [OF h1]
  have "get_twitch_access_token (sample_env (replies 401 JNull) sample_token) =
      Inl (Exception (''Failed to get access token: '' @ response_text (replies 401 JNull)))"
    by blast
  then have r1: "get_twitch_access_token (sample_env (replies 401 JNull) sample_token) =
      Inl (Exception ''Failed to get access token: upstream says no'')"
    by (simp add: replies_def)
  have "status_code sample_token = 200
      \<and> (\<exists>kvs. json_result sample_token = Inr (JObj kvs)
            \<and> map_of kvs ''access_token'' = Some (JStr ''tok''))"
    by (simp add: sample_token_def replies_def)
  with access_token_outcomes [OF h2, of "JStr ''tok''"]
  have r2: "get_twitch_access_token sample_ok = Inr (JStr ''tok'')"
    by blast
  from h1 r1 h2 r2 show ?thesis
    by (intro conjI)
qed

subsection \<open>Unmatched paths\<close>

text \<open>
  Claim C9, as stated, fails: the path \<^verbatim>\<open>/clip/FunnyClipSlug/\<close> matches no route, but
  without its trailing slash it matches the clip route, so the framework answers with a
  redirect of status 307, which the middleware passes on.
\<close>

theorem trailing_slash_counterexample:
  "no_route_matches (builtin_routes sample_framework @ app_routes sample_ok) (get ''/clip/FunnyClipSlug/'')
   \<and> app sample_framework sample_ok (get ''/clip/FunnyClipSlug/'') =
       RedirectResponse ''http://example.org/clip/FunnyClipSlug'' 307
   \<and> response_status (app sample_framework sample_ok (get ''/clip/FunnyClipSlug/'')) = 307"
  by code_simp

text \<open>
  Claim C9, amended. For every request whose path matches no route, also after its
  trailing slashes are removed or, when it has none, a slash is added, the framework
  answers with its JSON body of status 404 and the middleware replaces it by the plain
  text \<^verbatim>\<open>Not Found\<close> with status 404. A path that matches a route after that change is
  answered with the framework's redirect of status 307 instead.
\<close>

theorem unmatched_path:
  assumes "no_route_matches (builtin_routes fw @ app_routes env) request"
  shows "(no_route_matches (builtin_routes fw @ app_routes env)
            (request\<lparr>path := redirect_path (path request)\<rparr>) \<longrightarrow>
          router_app (builtin_routes fw @ app_routes env) (scope_url fw) request =
            JSONResponse (JObj [(''detail'', JStr ''Not Found'')]) 404
          \<and> app fw env request = PlainTextResponse ''Not Found'' 404)
       \<and> (\<not> no_route_matches (builtin_routes fw @ app_routes env)
              (request\<lparr>path := redirect_path (path request)\<rparr>) \<longrightarrow>
          app fw env request =
            RedirectResponse (scope_url fw (request\<lparr>path := redirect_path (path request)\<rparr>)) 307)"
proof (intro conjI impI)
  assume n: "no_route_matches (builtin_routes fw @ app_routes env)
      (request\<lparr>path := redirect_path (path request)\<rparr>)"
  show r: "router_app (builtin_routes fw @ app_routes env) (scope_url fw) request =
      JSONResponse (JObj [(''detail'', JStr ''Not Found'')]) 404"
    using router_app_unmatched(1) [OF assms n] by (simp add: http_exception_def)
  then have "response_status (router_app (builtin_routes fw @ app_routes env) (scope_url fw) request) = 404"
    by simp
  then show "app fw env request = PlainTextResponse ''Not Found'' 404"
    unfolding app_def by (rule catch_not_found_404)
next
  assume n: "\<not> no_route_matches (builtin_routes fw @ app_routes env)
      (request\<lparr>path := redirect_path (path request)\<rparr>)"
  have "router_app (builtin_routes fw @ app_routes env) (scope_url fw) request =
      RedirectResponse (scope_url fw (request\<lparr>path := redirect_path (path request)\<rparr>)) 307"
    using assms n unmatched_not_root [OF assms] by (rule router_app_unmatched(2))
  then show "app fw env request =
      RedirectResponse (scope_url fw (request\<lparr>path := redirect_path (path request)\<rparr>)) 307"
    by (simp add: app_def catch_not_found_def Let_def)
qed

theorem unmatched_path_witness:
  "no_route_matches (builtin_routes sample_framework @ app_routes sample_ok) (get ''/nope'')
   \<and> no_route_matches (builtin_routes sample_framework @ app_routes sample_ok)
        ((get ''/nope'')\<lparr>path := redirect_path (path (get ''/nope''))\<rparr>)
   \<and> router_app (builtin_routes sample_framework @ app_routes sample_ok)
        (scope_url sample_framework) (get ''/nope'') =
        JSONResponse (JObj [(''detail'', JStr ''Not Found'')]) 404
   \<and> app sample_framework sample_ok (get ''/nope'') = PlainTextResponse ''Not Found'' 404"
proof -
  have h1: "no_route_matches (builtin_routes sample_framework @ app_routes sample_ok) (get ''/nope'')"
    by code_simp
  have h2: "no_route_matches (builtin_routes sample_framework @ app_routes sample_ok)
        ((get ''/nope'')\<lparr>path := redirect_path (path (get ''/nope''))\<rparr>)"
    by code_simp
  from unmatched_path [OF h1] h2
  have "router_app (builtin_routes sample_framework @ app_routes sample_ok)
        (scope_url sample_framework) (get ''/nope'') =
        JSONResponse (JObj [(''detail'', JStr ''Not Found'')]) 404"
    and "app sample_framework sample_ok (get ''/nope'') = PlainTextResponse ''Not Found'' 404"
    by blast+
  with h1 h2 show ?thesis
    by (intro conjI)
qed

subsection \<open>The thumbnail\<close>

text \<open>
  Claim C7. The thumbnail URL is the fixed host, the slug and the fixed suffix
  \<^verbatim>\<open>-preview-480x272.jpg\<close>; different slugs give different URLs; and in a resolved clip
  it is computed from the \<^verbatim>\<open>slug\<close> field of the clip the query returned and from nothing
  else.
\<close>

theorem thumbnail_from_slug:
  "thumbnail_url_of s = ''https://clips-media-assets2.twitch.tv/'' @ s @ ''-preview-480x272.jpg''
   \<and> (s1 \<noteq> s2 \<longrightarrow> thumbnail_url_of s1 \<noteq> thumbnail_url_of s2)
   \<and> (fetch_clip_info_sync env clip_id = Inr info \<longrightarrow>
        (\<exists>clip_data access_data video_qualities slug.
            query_clip env clip_id = Inr (clip_data, access_data, video_qualities)
          \<and> getitem clip_data (Name ''slug'') = Inr slug
          \<and> thumbnail_url info = thumbnail_url_of (fstr env slug)))"
proof (intro conjI impI)
  show "thumbnail_url_of s = ''https://clips-media-assets2.twitch.tv/'' @ s @ ''-preview-480x272.jpg''"
    by (simp add: thumbnail_url_of_def)
  show "thumbnail_url_of s1 \<noteq> thumbnail_url_of s2" if "s1 \<noteq> s2"
    using that thumbnail_url_of_inj by blast
  show "\<exists>clip_data access_data video_qualities slug.
            query_clip env clip_id = Inr (clip_data, access_data, video_qualities)
          \<and> getitem clip_data (Name ''slug'') = Inr slug
          \<and> thumbnail_url info = thumbnail_url_of (fstr env slug)"
    if "fetch_clip_info_sync env clip_id = Inr info"
  proof -
    from fetch_clip_info_sync_Inr [OF that] obtain clip_data access_data video_qualities
      where q: "query_clip env clip_id = Inr (clip_data, access_data, video_qualities)"
        and b: "build_clip_info env clip_data access_data video_qualities = Inr info"
      by blast
    from build_clip_info_Inr [OF b] obtain slug
      where "getitem clip_data (Name ''slug'') = Inr slug"
        and "thumbnail_url info = thumbnail_url_of (fstr env slug)"
      by blast
    with q show ?thesis by blast
  qed
qed

theorem thumbnail_from_slug_witness:
  "''FunnyClipSlug'' \<noteq> ''OtherClipSlug''
   \<and> thumbnail_url_of ''FunnyClipSlug'' \<noteq> thumbnail_url_of ''OtherClipSlug''
   \<and> fetch_clip_info_sync sample_ok ''FunnyClipSlug'' = Inr sample_info
   \<and> (\<exists>clip_data access_data video_qualities slug.
            query_clip sample_ok ''FunnyClipSlug'' = Inr (clip_data, access_data, video_qualities)
          \<and> getitem clip_data (Name ''slug'') = Inr slug
          \<and> thumbnail_url sample_info = thumbnail_url_of (fstr sample_ok slug))"
proof -
  have h1: "''FunnyClipSlug'' \<noteq> ''OtherClipSlug''"
    by simp
  have h2: "fetch_clip_info_sync sample_ok ''FunnyClipSlug'' = Inr sample_info"
    by code_simp
  show ?thesis
    using h1 h2
      thumbnail_from_slug [of "''FunnyClipSlug''" "''FunnyClipSlug''" "''OtherClipSlug''"
        sample_ok "''FunnyClipSlug''" sample_info]
    by (intro conjI) blast+
qed

end
